theory Spec2Isabelle
  imports Complex_Main "HOL-Library.Word" "HOL-Library.Sublist"
begin

section \<open>Common conventions\<close>

text \<open>
  The development embeds two source files of gr-osmosdr: the AirspyHF source block
  (\<^verbatim>\<open>airspyhf_source_c.h/.cc\<close>) and the shared bladeRF code
  (\<^verbatim>\<open>lib/bladerf/bladerf_common.cc\<close>).

  \<^item> A C++ \<^verbatim>\<open>double\<close> is modelled as a \<^typ>\<open>real\<close>; the conversions the code
    applies to it (\<^verbatim>\<open>std::round\<close>, the casts to unsigned integers) are written out.
    A cast whose truncated value does not fit the target type is undefined behaviour in
    C++ and is an error value here.
  \<^item> \<^verbatim>\<open>uint8_t\<close>, \<^verbatim>\<open>uint32_t\<close>, \<^verbatim>\<open>uint64_t\<close> and \<^verbatim>\<open>int\<close> are words of
    8, 32, 64 and 32 bits; an \<^verbatim>\<open>int\<close> is read with \<^term>\<open>sint\<close>.
  \<^item> The vendor libraries (libairspyhf, libbladeRF) are not part of the repository.
    The calls into them are recorded in a call log, and what the library answers is a
    parameter of the modelled function.
  \<^item> \<^verbatim>\<open>assert\<close> is modelled as compiled in: a failing assertion ends the function
    with \<open>Assertion_failed\<close>. A thrown C++ exception is an error value as well.
\<close>

datatype error =
    Assertion_failed string
  | Undefined_conversion
  | Runtime_error int string
  | Bad_weak_ptr

text \<open>Pieces of a diagnostic line: the code streams strings and numbers to
  \<^verbatim>\<open>std::cout\<close> (info) or \<^verbatim>\<open>std::cerr\<close> (warning).\<close>

datatype piece = S string | N int | D real

datatype diag =
    INFO string "piece list"      \<comment> \<open>\<^verbatim>\<open>__FUNCTION__\<close>, message\<close>
  | WARNING string "piece list"

text \<open>\<^verbatim>\<open>std::round\<close>: to the nearest integer, halfway cases away from zero.\<close>

definition std_round :: "real \<Rightarrow> int" where
  "std_round x = (if 0 \<le> x then \<lfloor>x + 1 / 2\<rfloor> else \<lceil>x - 1 / 2\<rceil>)"

text \<open>Conversion of a floating-point value to an integer type truncates towards zero.\<close>

definition trunc :: "real \<Rightarrow> int" where
  "trunc x = (if 0 \<le> x then \<lfloor>x\<rfloor> else \<lceil>x\<rceil>)"

definition double_to_uint8 :: "real \<Rightarrow> error + 8 word" where
  "double_to_uint8 x =
     (if 0 \<le> trunc x \<and> trunc x \<le> 255 then Inr (word_of_int (trunc x))
      else Inl Undefined_conversion)"

definition double_to_uint32 :: "real \<Rightarrow> error + 32 word" where
  "double_to_uint32 x =
     (if 0 \<le> trunc x \<and> trunc x < 2 ^ 32 then Inr (word_of_int (trunc x))
      else Inl Undefined_conversion)"

definition double_to_uint64 :: "real \<Rightarrow> error + 64 word" where
  "double_to_uint64 x =
     (if 0 \<le> trunc x \<and> trunc x < 2 ^ 64 then Inr (word_of_int (trunc x))
      else Inl Undefined_conversion)"

section \<open>AirspyHF source block: data model\<close>

text \<open>\<^verbatim>\<open>AIRSPYHF_SUCCESS\<close> of the vendor header; the code only compares with it.\<close>

definition AIRSPYHF_SUCCESS :: int where
  "AIRSPYHF_SUCCESS = 0"

text \<open>\<^verbatim>\<open>gr::block::WORK_DONE\<close>, the scheduler's end-of-stream indication.\<close>

definition WORK_DONE :: "32 word" where
  "WORK_DONE = - 1"

text \<open>Calls made to libairspyhf through \<^verbatim>\<open>_dev\<close>.\<close>

datatype hw_call =
    Set_hf_att "8 word"
  | Set_hf_lna "8 word"
  | Set_hf_agc bool
  | Set_samplerate "32 word"
  | Set_freq real
  | Set_calibration "32 word"
  | Start_rx
  | Stop_rx

text \<open>
  The transfer handed to the callback (\<^verbatim>\<open>airspyhf_transfer_t\<close>): the block of
  samples and the number of samples the driver dropped before it.
\<close>

record 'a transfer =
  t_samples :: "'a list"
  t_dropped_samples :: "64 word"

text \<open>
  Control state of the two threads that meet at the object. The scheduler's thread
  runs \<^verbatim>\<open>work\<close>: it is outside a call, about to test the condition of the wait
  loop (holding the lock), parked in \<^verbatim>\<open>_callback_done_cond.wait\<close>, or has returned
  a value. The driver's thread runs the callback in the same way around
  \<^verbatim>\<open>_stream_cond.wait\<close>.
\<close>

datatype work_pc = Work_idle | Work_check | Work_wait | Work_return "32 word"

datatype 'a callback_pc =
    Callback_idle
  | Callback_check "'a transfer"
  | Callback_wait "'a transfer"
  | Callback_return "32 word"

text \<open>
  The object's fields. \<open>is_streaming\<close> is what \<^verbatim>\<open>airspyhf_is_streaming(_dev)\<close>
  reports, \<open>hw\<close> the calls that ask the driver to change something (oldest first;
  its queries are not listed), \<open>mem\<close> the contents of
  the buffers that pointers refer to, \<open>copies\<close> the \<^verbatim>\<open>memcpy\<close> calls performed
  (destination and data), \<open>offers\<close> the pointers assigned to \<^verbatim>\<open>_stream_buff\<close> by
  \<^verbatim>\<open>work\<close>, and \<open>out\<close> the diagnostics printed. A null pointer is \<open>None\<close>.
  The two condition variables are represented by the threads parked on them:
  \<open>consumer\<close> and \<open>driver_thread\<close>.
  The fields \<^verbatim>\<open>_att\<close>, \<^verbatim>\<open>_lna\<close> and \<^verbatim>\<open>_agc\<close> are used by the implementation
  file without a declaration in the header at hand; they are taken as
  \<^verbatim>\<open>uint8_t\<close>, \<^verbatim>\<open>uint8_t\<close> and \<^verbatim>\<open>bool\<close>, the types of the values assigned to them.
  \<^verbatim>\<open>_dev\<close> is not null once the constructor has returned, so the assertions on it
  hold and are left out.
\<close>

record 'a airspyhf_source_c =
  is_streaming :: bool
  hw :: "hw_call list"
  airspyhf_output_size :: "32 word"
  att :: "8 word"
  lna :: "8 word"
  agc :: bool
  sample_rate :: real
  center_freq :: real
  freq_corr :: real
  dropped_samples :: "64 word"
  stream_buff :: "nat option"
  consumer :: work_pc
  driver_thread :: "'a callback_pc"
  mem :: "nat \<Rightarrow> 'a list"
  copies :: "(nat \<times> 'a list) list"
  offers :: "nat list"
  out :: "diag list"

section \<open>AirspyHF source block: gain\<close>

definition airspyhf_lna_db_to_flag :: "real \<Rightarrow> 8 word" where
  "airspyhf_lna_db_to_flag db = (if db \<ge> 3 then 1 else 0)"

definition airspyhf_lna_flag_to_db :: "8 word \<Rightarrow> real" where
  "airspyhf_lna_flag_to_db flag = (if flag \<noteq> 0 then 6 else 0)"

text \<open>\<^verbatim>\<open>return std::round(-db/6.0);\<close> with return type \<^verbatim>\<open>uint8_t\<close>: the rounded
  value is an integral double, so the conversion keeps it when it lies in 0..255.\<close>

definition airspyhf_att_db_to_value :: "real \<Rightarrow> error + 8 word" where
  "airspyhf_att_db_to_value db = double_to_uint8 (of_int (std_round (- db / 6)))"

definition airspyhf_att_value_to_db :: "8 word \<Rightarrow> real" where
  "airspyhf_att_value_to_db v = of_nat (unat v) * (- 6)"

text \<open>
  \<^verbatim>\<open>set_gain(gain, name, chan)\<close>. \<open>ret\<close> is the status the driver answers if the call
  to \<^verbatim>\<open>airspyhf_set_hf_att\<close> or \<^verbatim>\<open>airspyhf_set_hf_lna\<close> is made.
\<close>

definition set_gain ::
  "int \<Rightarrow> real \<Rightarrow> string \<Rightarrow> nat \<Rightarrow> 'a airspyhf_source_c \<Rightarrow> error + (real \<times> 'a airspyhf_source_c)"
where
  "set_gain ret gain name chan s =
     (if chan \<noteq> 0 then Inl (Assertion_failed ''chan == 0'')
      else if name = ''ATT'' then
        (case airspyhf_att_db_to_value gain of
           Inl e \<Rightarrow> Inl e
         | Inr a \<Rightarrow>
             if att s \<noteq> a then
               (let s1 = s\<lparr>hw := hw s @ [Set_hf_att a]\<rparr> in
                if ret \<noteq> AIRSPYHF_SUCCESS then Inl (Assertion_failed ''ret == AIRSPYHF_SUCCESS'')
                else
                  (let s2 = s1\<lparr>att := a\<rparr>;
                       s3 = s2\<lparr>out := out s2 @ [INFO ''set_gain'' [S ''att: '', N (uint (att s2))]]\<rparr>
                   in Inr (airspyhf_att_value_to_db (att s3), s3)))
             else Inr (airspyhf_att_value_to_db (att s), s))
      else if name = ''LNA'' then
        (let l = airspyhf_lna_db_to_flag gain in
         if lna s \<noteq> l then
           (let s1 = s\<lparr>hw := hw s @ [Set_hf_lna l]\<rparr> in
            if ret \<noteq> AIRSPYHF_SUCCESS then Inl (Assertion_failed ''ret == AIRSPYHF_SUCCESS'')
            else
              (let s2 = s1\<lparr>lna := l\<rparr>;
                   s3 = s2\<lparr>out := out s2 @ [INFO ''set_gain'' [S ''lna: '', N (uint (lna s2))]]\<rparr>
               in Inr (airspyhf_lna_flag_to_db (lna s3), s3)))
         else Inr (airspyhf_lna_flag_to_db (lna s), s))
      else
        Inr (0, s\<lparr>out := out s @ [WARNING ''set_gain'' [S ''unknown gain: '', S name]]\<rparr>))"

definition get_gain ::
  "string \<Rightarrow> nat \<Rightarrow> 'a airspyhf_source_c \<Rightarrow> error + (real \<times> 'a airspyhf_source_c)"
where
  "get_gain name chan s =
     (if chan \<noteq> 0 then Inl (Assertion_failed ''chan == 0'')
      else if name = ''ATT'' then Inr (airspyhf_att_value_to_db (att s), s)
      else if name = ''LNA'' then Inr (airspyhf_lna_flag_to_db (lna s), s)
      else Inr (0, s\<lparr>out := out s @ [WARNING ''get_gain'' [S ''unknown gain: '', S name]]\<rparr>))"

text \<open>\<^verbatim>\<open>set_gain_mode(automatic, chan)\<close>; the cached flag is written before the driver
  is called.\<close>

definition set_gain_mode ::
  "int \<Rightarrow> bool \<Rightarrow> nat \<Rightarrow> 'a airspyhf_source_c \<Rightarrow> error + (bool \<times> 'a airspyhf_source_c)"
where
  "set_gain_mode ret automatic chan s =
     (if chan \<noteq> 0 then Inl (Assertion_failed ''chan == 0'')
      else if agc s \<noteq> automatic then
        (let s1 = s\<lparr>agc := automatic\<rparr>;
             s2 = s1\<lparr>hw := hw s1 @ [Set_hf_agc automatic]\<rparr> in
         if ret \<noteq> AIRSPYHF_SUCCESS then Inl (Assertion_failed ''ret == AIRSPYHF_SUCCESS'')
         else
           (let s3 = s2\<lparr>out := out s2 @ [INFO ''set_gain_mode'' [S ''AGC: '', N (if agc s2 then 1 else 0)]]\<rparr>
            in Inr (agc s3, s3)))
      else Inr (agc s, s))"

definition get_gain_mode :: "nat \<Rightarrow> 'a airspyhf_source_c \<Rightarrow> error + bool" where
  "get_gain_mode chan s =
     (if chan \<noteq> 0 then Inl (Assertion_failed ''chan == 0'') else Inr (agc s))"

section \<open>AirspyHF source block: sample rate and frequency\<close>

text \<open>\<^verbatim>\<open>set_sample_rate(rate)\<close>: the driver receives the rate cast to
  \<^verbatim>\<open>uint32_t\<close>; on success the field keeps the \<^verbatim>\<open>double\<close> that was asked for.
  The second line printed ends with the driver's answer to \<^verbatim>\<open>airspyhf_is_low_if\<close>,
  a number the model does not keep.\<close>

definition set_sample_rate ::
  "int \<Rightarrow> real \<Rightarrow> 'a airspyhf_source_c \<Rightarrow> error + (real \<times> 'a airspyhf_source_c)"
where
  "set_sample_rate ret rate s =
     (case double_to_uint32 rate of
        Inl e \<Rightarrow> Inl e
      | Inr r \<Rightarrow>
          (let s1 = s\<lparr>hw := hw s @ [Set_samplerate r]\<rparr> in
           if ret = AIRSPYHF_SUCCESS then
             (let s2 = s1\<lparr>sample_rate := rate\<rparr>;
                  s3 = s2\<lparr>out := out s2 @
                         [INFO ''set_sample_rate'' [S ''samplerate: '', D rate],
                          INFO ''set_sample_rate'' [S ''is_low_if: '']]\<rparr>
              in Inr (sample_rate s3, s3))
           else Inr (sample_rate s1, s1)))"

definition get_sample_rate :: "'a airspyhf_source_c \<Rightarrow> real" where
  "get_sample_rate s = sample_rate s"

text \<open>\<^verbatim>\<open>set_center_freq(freq, chan)\<close>.\<close>

definition set_center_freq ::
  "int \<Rightarrow> real \<Rightarrow> 'a airspyhf_source_c \<Rightarrow> real \<times> 'a airspyhf_source_c"
where
  "set_center_freq ret freq s =
     (let s1 = s\<lparr>hw := hw s @ [Set_freq freq]\<rparr> in
      if ret = AIRSPYHF_SUCCESS then
        (let s2 = s1\<lparr>center_freq := freq\<rparr> in (center_freq s2, s2))
      else
        (let s2 = s1\<lparr>out := out s1 @ [WARNING ''set_center_freq'' [S ''set_center_freq failed'']]\<rparr>
         in (center_freq s2, s2)))"

definition get_center_freq :: "'a airspyhf_source_c \<Rightarrow> real" where
  "get_center_freq s = center_freq s"

section \<open>AirspyHF source block: the streaming bridge\<close>

text \<open>
  \<^verbatim>\<open>notify_one\<close> on a condition variable releases the thread parked on it, if there
  is one; the released thread tests its loop condition again once it holds the lock.
\<close>

definition notify_stream_cond :: "'a airspyhf_source_c \<Rightarrow> 'a airspyhf_source_c" where
  "notify_stream_cond s =
     (case driver_thread s of
        Callback_wait t \<Rightarrow> s\<lparr>driver_thread := Callback_check t\<rparr>
      | _ \<Rightarrow> s)"

definition notify_callback_done_cond :: "'a airspyhf_source_c \<Rightarrow> 'a airspyhf_source_c" where
  "notify_callback_done_cond s =
     (case consumer s of
        Work_wait \<Rightarrow> s\<lparr>consumer := Work_check\<rparr>
      | _ \<Rightarrow> s)"

text \<open>\<^verbatim>\<open>std::memcpy(dst, src, sizeof(gr_complex) * n)\<close>: the first \<open>n\<close> samples of the
  destination are overwritten. The source holds at least \<open>n\<close> samples in every use the
  theorems below make of it.\<close>

definition memcpy :: "nat \<Rightarrow> 'a list \<Rightarrow> nat \<Rightarrow> 'a airspyhf_source_c \<Rightarrow> 'a airspyhf_source_c" where
  "memcpy dst src n s =
     s\<lparr>mem := (mem s)(dst := take n src @ drop n (mem s dst)),
       copies := copies s @ [(dst, take n src)]\<rparr>"

text \<open>
  The callback after its wait loop (the lock is held): the warning, the copy, the
  clearing of the slot, the notification, \<^verbatim>\<open>return 0\<close>.
\<close>

definition airspyhf_rx_callback_body :: "'a transfer \<Rightarrow> 'a airspyhf_source_c \<Rightarrow> 'a airspyhf_source_c" where
  "airspyhf_rx_callback_body t s =
     (let s1 = (if t_dropped_samples t \<noteq> 0
                then s\<lparr>out := out s @ [WARNING ''airspyhf_rx_callback''
                                          [S ''dropped_samples: '', N (uint (t_dropped_samples t))]]\<rparr>
                else s);
          s2 = (case stream_buff s1 of
                  Some b \<Rightarrow> memcpy b (t_samples t) (unat (airspyhf_output_size s1)) s1
                | None \<Rightarrow> s1);
          s3 = s2\<lparr>stream_buff := None\<rparr>;
          s4 = notify_callback_done_cond s3
      in s4\<lparr>driver_thread := Callback_return 0\<rparr>)"

text \<open>
  The callback from the lock to the end: one test of
  \<^verbatim>\<open>while (_stream_buff == nullptr && airspyhf_is_streaming(_dev))\<close>, which either
  parks the thread in \<^verbatim>\<open>_stream_cond.wait\<close> or falls through to the body.
\<close>

definition airspyhf_rx_callback :: "'a transfer \<Rightarrow> 'a airspyhf_source_c \<Rightarrow> 'a airspyhf_source_c" where
  "airspyhf_rx_callback t s =
     (if stream_buff s = None \<and> is_streaming s then s\<lparr>driver_thread := Callback_wait t\<rparr>
      else airspyhf_rx_callback_body t s)"

text \<open>\<^verbatim>\<open>start()\<close>; a driver that answers success is streaming afterwards.\<close>

definition start :: "int \<Rightarrow> 'a airspyhf_source_c \<Rightarrow> error + 'a airspyhf_source_c" where
  "start ret s =
     (let s1 = s\<lparr>hw := hw s @ [Start_rx]\<rparr> in
      if ret \<noteq> AIRSPYHF_SUCCESS then Inl (Assertion_failed ''ret == AIRSPYHF_SUCCESS'')
      else Inr (s1\<lparr>is_streaming := True, out := out s1 @ [INFO ''start'' [S ''start'']]\<rparr>))"

text \<open>\<^verbatim>\<open>stop()\<close>: the lock, \<^verbatim>\<open>airspyhf_stop\<close>, the assertion, the log line. A driver
  that answers success is not streaming afterwards. The function assigns no field and
  notifies no condition variable.\<close>

definition stop :: "int \<Rightarrow> 'a airspyhf_source_c \<Rightarrow> error + 'a airspyhf_source_c" where
  "stop ret s =
     (let s1 = s\<lparr>hw := hw s @ [Stop_rx]\<rparr> in
      if ret \<noteq> AIRSPYHF_SUCCESS then Inl (Assertion_failed ''ret == AIRSPYHF_SUCCESS'')
      else Inr (s1\<lparr>is_streaming := False, out := out s1 @ [INFO ''stop'' [S ''stop'']]\<rparr>))"

text \<open>
  \<^verbatim>\<open>work(noutput_items, input_items, output_items)\<close> from the lock to the
  notification. \<open>noutput_items\<close> is an \<^verbatim>\<open>int\<close>; the comparison with the
  \<^verbatim>\<open>uint32_t\<close> block size converts it to unsigned, which keeps its 32 bits, so it
  is the unsigned order of words. \<open>output0\<close> is \<^verbatim>\<open>output_items[0]\<close>, a buffer of
  the scheduler.
\<close>

definition work_entry :: "32 word \<Rightarrow> nat \<Rightarrow> 'a airspyhf_source_c \<Rightarrow> 'a airspyhf_source_c" where
  "work_entry noutput_items output0 s =
     (if \<not> is_streaming s then s\<lparr>consumer := Work_return WORK_DONE\<rparr>
      else if noutput_items < airspyhf_output_size s then s\<lparr>consumer := Work_return 0\<rparr>
      else notify_stream_cond
             (s\<lparr>stream_buff := Some output0, offers := offers s @ [output0],
                consumer := Work_check\<rparr>))"

text \<open>
  One test of \<^verbatim>\<open>while ((_stream_buff != nullptr) && airspyhf_is_streaming(_dev))\<close>:
  the thread parks in \<^verbatim>\<open>_callback_done_cond.wait\<close>, or leaves the loop and
  returns \<^verbatim>\<open>_airspyhf_output_size\<close>.
\<close>

definition work_wait_loop :: "'a airspyhf_source_c \<Rightarrow> 'a airspyhf_source_c" where
  "work_wait_loop s =
     (if stream_buff s \<noteq> None \<and> is_streaming s then s\<lparr>consumer := Work_wait\<rparr>
      else s\<lparr>consumer := Work_return (airspyhf_output_size s)\<rparr>)"

text \<open>
  What can happen to the object, one atomic step at a time. The mutex makes every
  stretch of code between two waits atomic. \<open>Device_halt\<close> is the device leaving the
  streaming state on its own (unplugged, fault); \<open>Wakeup_consumer\<close> and
  \<open>Wakeup_callback\<close> are wake-ups of a parked thread without a notification, which
  \<^verbatim>\<open>std::condition_variable::wait\<close> permits. \<^verbatim>\<open>work\<close> is called by one thread and
  the callback by one thread, so a call starts only when the previous one has returned;
  an event that cannot happen in a state leaves it as it is.
\<close>

datatype 'a event =
    Work_call "32 word" nat
  | Work_resume
  | Callback_call "'a transfer"
  | Callback_resume
  | Start_call int
  | Stop_call int
  | Device_halt
  | Wakeup_consumer
  | Wakeup_callback

fun outside_work :: "work_pc \<Rightarrow> bool" where
  "outside_work Work_idle = True"
| "outside_work (Work_return r) = True"
| "outside_work Work_check = False"
| "outside_work Work_wait = False"

fun outside_callback :: "'a callback_pc \<Rightarrow> bool" where
  "outside_callback Callback_idle = True"
| "outside_callback (Callback_return r) = True"
| "outside_callback (Callback_check t) = False"
| "outside_callback (Callback_wait t) = False"

fun step :: "'a event \<Rightarrow> 'a airspyhf_source_c \<Rightarrow> error + 'a airspyhf_source_c" where
  "step (Work_call n b) s = Inr (if outside_work (consumer s) then work_entry n b s else s)"
| "step Work_resume s = Inr (if consumer s = Work_check then work_wait_loop s else s)"
| "step (Callback_call t) s =
     Inr (if outside_callback (driver_thread s) then airspyhf_rx_callback t s else s)"
| "step Callback_resume s =
     Inr (case driver_thread s of Callback_check t \<Rightarrow> airspyhf_rx_callback t s | _ \<Rightarrow> s)"
| "step (Start_call ret) s = start ret s"
| "step (Stop_call ret) s = stop ret s"
| "step Device_halt s = Inr (s\<lparr>is_streaming := False\<rparr>)"
| "step Wakeup_consumer s =
     Inr (if consumer s = Work_wait then s\<lparr>consumer := Work_check\<rparr> else s)"
| "step Wakeup_callback s =
     Inr (case driver_thread s of Callback_wait t \<Rightarrow> s\<lparr>driver_thread := Callback_check t\<rparr> | _ \<Rightarrow> s)"

text \<open>A run: the events in order, ended by the first failed assertion.\<close>

fun run :: "'a event list \<Rightarrow> 'a airspyhf_source_c \<Rightarrow> error + 'a airspyhf_source_c" where
  "run [] s = Inr s"
| "run (e # es) s = (case step e s of Inl x \<Rightarrow> Inl x | Inr s' \<Rightarrow> run es s')"

text \<open>
  An object before streaming starts, for a device with block size \<open>n\<close> and a memory
  \<open>m\<close>: the fields as the constructor's initialiser list and its two setter calls
  leave them when the driver accepts both. The constructor's own driver calls and
  print-outs are not listed: the logs start empty. \<^verbatim>\<open>_dropped_samples\<close> has no
  initialiser, so its first value \<open>d\<close> is arbitrary.
\<close>

definition constructed :: "32 word \<Rightarrow> 64 word \<Rightarrow> (nat \<Rightarrow> 'a list) \<Rightarrow> 'a airspyhf_source_c" where
  "constructed n d m =
     \<lparr>is_streaming = False, hw = [], airspyhf_output_size = n, att = 0, lna = 1, agc = True,
      sample_rate = 768000, center_freq = 14000000, freq_corr = 0, dropped_samples = d,
      stream_buff = None, consumer = Work_idle, driver_thread = Callback_idle,
      mem = m, copies = [], offers = [], out = []\<rparr>"

section \<open>bladeRF common code: parameters\<close>

text \<open>\<^verbatim>\<open>BLADERF_ERR_UNSUPPORTED\<close> of the vendor header.\<close>

definition BLADERF_ERR_UNSUPPORTED :: int where
  "BLADERF_ERR_UNSUPPORTED = - 8"

definition SYSTEM_GAIN_NAME :: string where
  "SYSTEM_GAIN_NAME = ''system''"

record rational_rate =
  rr_integer :: "64 word"
  rr_num :: "64 word"
  rr_den :: "64 word"

datatype lna_gain = BLADERF_LNA_GAIN_BYPASS | BLADERF_LNA_GAIN_MID | BLADERF_LNA_GAIN_MAX

text \<open>Calls made to libbladeRF through \<^verbatim>\<open>_dev\<close>; the first argument is the channel.\<close>

datatype bladerf_call =
    Set_rational_sample_rate int rational_rate
  | Get_rational_sample_rate int
  | Set_gain int "32 word"
  | Set_gain_stage int string "32 word"
  | Get_gain int
  | Get_gain_stage int string
  | Set_lna_gain lna_gain
  | Set_rxvga1 "32 word"
  | Set_rxvga2 "32 word"
  | Get_lna_gain
  | Get_rxvga1
  | Get_rxvga2

text \<open>What the model keeps of a \<^verbatim>\<open>bladerf_common\<close> object: the calls issued to the
  driver and the diagnostics printed.\<close>

record bladerf_common =
  b_calls :: "bladerf_call list"
  b_out :: "diag list"

definition double_to_int :: "real \<Rightarrow> error + 32 word" where
  "double_to_int x =
     (if - (2 ^ 31) \<le> trunc x \<and> trunc x < 2 ^ 31 then Inr (word_of_int (trunc x))
      else Inl Undefined_conversion)"

text \<open>\<^verbatim>\<open>r.integer + r.num / static_cast<double>(r.den)\<close>.\<close>

definition rate_to_double :: "rational_rate \<Rightarrow> real" where
  "rate_to_double r = of_nat (unat (rr_integer r)) + of_nat (unat (rr_num r)) / of_nat (unat (rr_den r))"

text \<open>
  \<^verbatim>\<open>bladerf_common::set_sample_rate(rate, ch)\<close>. \<open>reply\<close> is the driver's answer to
  \<^verbatim>\<open>bladerf_set_rational_sample_rate\<close>: its status and the rate it stores in
  \<^verbatim>\<open>actual\<close>.
\<close>

definition bladerf_common_set_sample_rate ::
  "int \<times> rational_rate \<Rightarrow> real \<Rightarrow> int \<Rightarrow> bladerf_common \<Rightarrow> error + (real \<times> bladerf_common)"
where
  "bladerf_common_set_sample_rate reply rate ch st =
     (case double_to_uint32 rate of
        Inl e \<Rightarrow> Inl e
      | Inr i \<Rightarrow>
          (case double_to_uint64 ((rate - of_nat (unat i)) * 10000) of
             Inl e \<Rightarrow> Inl e
           | Inr n \<Rightarrow>
               (let rational_rate = \<lparr>rr_integer = word_of_nat (unat i), rr_num = n, rr_den = 10000\<rparr>;
                    st1 = st\<lparr>b_calls := b_calls st @ [Set_rational_sample_rate ch rational_rate]\<rparr>
                in if fst reply \<noteq> 0 then Inl (Runtime_error (fst reply) ''Failed to set sample rate'')
                   else Inr (rate_to_double (snd reply), st1))))"

text \<open>\<^verbatim>\<open>bladerf_common::get_sample_rate(ch)\<close>; \<open>reply\<close> is the driver's answer to
  \<^verbatim>\<open>bladerf_get_rational_sample_rate\<close>.\<close>

definition bladerf_common_get_sample_rate ::
  "int \<times> rational_rate \<Rightarrow> int \<Rightarrow> bladerf_common \<Rightarrow> error + (real \<times> bladerf_common)"
where
  "bladerf_common_get_sample_rate reply ch st =
     (let st1 = st\<lparr>b_calls := b_calls st @ [Get_rational_sample_rate ch]\<rparr>
      in if fst reply \<noteq> 0 then Inl (Runtime_error (fst reply) ''Failed to get sample rate'')
         else Inr (rate_to_double (snd reply), st1))"

text \<open>
  \<^verbatim>\<open>bladerf_common::get_gain(name, ch)\<close>. \<open>compatibility\<close> tells whether
  \<^verbatim>\<open>BLADERF_COMPATIBILITY\<close> is defined. \<open>reply\<close> is the driver's answer to the getter
  that is called: its status, the value it leaves in \<^verbatim>\<open>g\<close> and, for the LNA of the
  compatibility build, the value it leaves in \<^verbatim>\<open>lna_g\<close>.
\<close>

definition bladerf_common_get_gain ::
  "bool \<Rightarrow> int \<times> 32 word \<times> lna_gain \<Rightarrow> string \<Rightarrow> int \<Rightarrow> bladerf_common \<Rightarrow> real \<times> bladerf_common"
where
  "bladerf_common_get_gain compatibility reply name ch st =
     (let (status, g, st1) =
            (if compatibility then
               (if name = ''LNA'' then
                  (fst reply,
                   (case snd (snd reply) of
                      BLADERF_LNA_GAIN_BYPASS \<Rightarrow> 0 | BLADERF_LNA_GAIN_MID \<Rightarrow> 3 | BLADERF_LNA_GAIN_MAX \<Rightarrow> 6),
                   st\<lparr>b_calls := b_calls st @ [Get_lna_gain]\<rparr>)
                else if name = ''VGA1'' then
                  (fst reply, fst (snd reply), st\<lparr>b_calls := b_calls st @ [Get_rxvga1]\<rparr>)
                else if name = ''VGA2'' then
                  (fst reply, fst (snd reply), st\<lparr>b_calls := b_calls st @ [Get_rxvga2]\<rparr>)
                else (BLADERF_ERR_UNSUPPORTED, 0, st))
             else
               (if name = SYSTEM_GAIN_NAME then
                  (fst reply, fst (snd reply), st\<lparr>b_calls := b_calls st @ [Get_gain ch]\<rparr>)
                else
                  (fst reply, fst (snd reply), st\<lparr>b_calls := b_calls st @ [Get_gain_stage ch name]\<rparr>)));
          st2 = (if status \<noteq> 0
                 then st1\<lparr>b_out := b_out st1 @
                        [WARNING ''get_gain'' [S ''Could not get gain for stage '', S name, N status]]\<rparr>
                 else st1)
      in (real_of_int (sint (g :: 32 word)), st2))"

text \<open>
  \<^verbatim>\<open>bladerf_common::set_gain(gain, name, ch)\<close>. \<open>status_set\<close> is the driver's answer
  to the setter that is called, \<open>reply\<close> its answer to the getter of the closing
  \<^verbatim>\<open>get_gain(name, ch)\<close>.
\<close>

definition bladerf_common_set_gain ::
  "bool \<Rightarrow> int \<Rightarrow> int \<times> 32 word \<times> lna_gain \<Rightarrow> real \<Rightarrow> string \<Rightarrow> int \<Rightarrow> bladerf_common
     \<Rightarrow> error + (real \<times> bladerf_common)"
where
  "bladerf_common_set_gain compatibility status_set reply gain name ch st =
     (case
        (if compatibility then
           (if name = ''LNA'' then
              (let g = (if gain \<ge> 6 then BLADERF_LNA_GAIN_MAX
                        else if gain \<ge> 3 then BLADERF_LNA_GAIN_MID
                        else BLADERF_LNA_GAIN_BYPASS)
               in Inr (status_set, st\<lparr>b_calls := b_calls st @ [Set_lna_gain g]\<rparr>))
            else if name = ''VGA1'' then
              (case double_to_int gain of
                 Inl e \<Rightarrow> Inl e
               | Inr g \<Rightarrow> Inr (status_set, st\<lparr>b_calls := b_calls st @ [Set_rxvga1 g]\<rparr>))
            else if name = ''VGA2'' then
              (case double_to_int gain of
                 Inl e \<Rightarrow> Inl e
               | Inr g \<Rightarrow> Inr (status_set, st\<lparr>b_calls := b_calls st @ [Set_rxvga2 g]\<rparr>))
            else Inr (BLADERF_ERR_UNSUPPORTED, st))
         else
           (case double_to_int gain of
              Inl e \<Rightarrow> Inl e
            | Inr g \<Rightarrow>
                if name = SYSTEM_GAIN_NAME
                then Inr (status_set, st\<lparr>b_calls := b_calls st @ [Set_gain ch g]\<rparr>)
                else Inr (status_set, st\<lparr>b_calls := b_calls st @ [Set_gain_stage ch name g]\<rparr>)))
      of
        Inl e \<Rightarrow> Inl e
      | Inr (status, st1) \<Rightarrow>
          if status = BLADERF_ERR_UNSUPPORTED then
            Inr (bladerf_common_get_gain compatibility reply name ch
                   (st1\<lparr>b_out := b_out st1 @
                      [WARNING ''set_gain'' [S ''Gain stage '', S name, S '' not supported by device'']]\<rparr>))
          else if status \<noteq> 0 then
            Inl (Runtime_error status ''Failed to set gain for stage'')
          else Inr (bladerf_common_get_gain compatibility reply name ch st1))"

section \<open>bladeRF common code: the cache of open devices\<close>

text \<open>
  The static members \<^verbatim>\<open>_devs\<close> (a list of weak pointers) and what they refer to.
  A device handle is the address the driver returned. \<open>use_count\<close> is the number of
  shared pointers that own a handle; a weak pointer to it has expired when that number
  is 0. \<open>opened\<close> and \<open>closed\<close> list the physical connections the driver was asked to
  open (with the handle it returned) and to close.
\<close>

record 'd bladerf_devs =
  devs :: "nat list"
  use_count :: "nat \<Rightarrow> nat"
  opened :: "('d \<times> nat) list"
  closed :: "nat list"

text \<open>
  The driver, as far as the cache depends on it: \<open>from_str\<close> is
  \<^verbatim>\<open>bladerf_get_devinfo_from_str\<close> (status and the filled-in device information),
  \<open>info\<close> is \<^verbatim>\<open>bladerf_get_devinfo\<close> on a handle, \<open>matches\<close> is
  \<^verbatim>\<open>bladerf_devinfo_matches\<close>.
\<close>

record 'd libbladeRF =
  from_str :: "string \<Rightarrow> int \<times> 'd"
  info :: "nat \<Rightarrow> int \<times> 'd"
  matches :: "'d \<Rightarrow> 'd \<Rightarrow> bool"

text \<open>
  \<^verbatim>\<open>get_cached_device(devinfo)\<close>: the loop over \<^verbatim>\<open>_devs\<close>. Making a shared pointer
  from an expired weak pointer throws \<^verbatim>\<open>std::bad_weak_ptr\<close>.
\<close>

fun get_cached_device :: "'d libbladeRF \<Rightarrow> (nat \<Rightarrow> nat) \<Rightarrow> 'd \<Rightarrow> nat list \<Rightarrow> error + nat option" where
  "get_cached_device lib uc devinfo [] = Inr None"
| "get_cached_device lib uc devinfo (dev # rest) =
     (if uc dev = 0 then Inl Bad_weak_ptr
      else if fst (info lib dev) < 0
        then Inl (Runtime_error (fst (info lib dev)) ''Failed to get devinfo for cached device'')
      else if matches lib devinfo (snd (info lib dev)) then Inr (Some dev)
      else get_cached_device lib uc devinfo rest)"

text \<open>
  \<^verbatim>\<open>bladerf_common::open(device_name)\<close>. \<open>reply\<close> is the driver's answer to
  \<^verbatim>\<open>bladerf_open_with_devinfo\<close> if that call is made: status and handle. The result
  is the shared pointer handed to the caller, who owns one more reference.
\<close>

definition bladerf_common_open ::
  "'d libbladeRF \<Rightarrow> int \<times> nat \<Rightarrow> string \<Rightarrow> 'd bladerf_devs \<Rightarrow> error + (nat \<times> 'd bladerf_devs)"
where
  "bladerf_common_open lib reply device_name st =
     (let (status, devinfo) = from_str lib device_name in
      if status < 0 then Inl (Runtime_error status ''Failed to get devinfo'')
      else
        (case get_cached_device lib (use_count st) devinfo (devs st) of
           Inl e \<Rightarrow> Inl e
         | Inr (Some cached_dev) \<Rightarrow>
             Inr (cached_dev, st\<lparr>use_count := (use_count st)(cached_dev := use_count st cached_dev + 1)\<rparr>)
         | Inr None \<Rightarrow>
             (let st1 = st\<lparr>opened := opened st @ [(devinfo, snd reply)]\<rparr> in
              if fst reply < 0 then Inl (Runtime_error (fst reply) ''Failed to open device'')
              else Inr (snd reply,
                        st1\<lparr>devs := devs st1 @ [snd reply],
                            use_count := (use_count st1)(snd reply := 1)\<rparr>))))"

text \<open>\<^verbatim>\<open>bladerf_common::close(dev)\<close>, the deleter of the shared pointers: expired
  entries leave the cache, then the connection is closed.\<close>

definition bladerf_common_close :: "nat \<Rightarrow> 'd bladerf_devs \<Rightarrow> 'd bladerf_devs" where
  "bladerf_common_close dev st =
     st\<lparr>devs := filter (\<lambda>h. use_count st h \<noteq> 0) (devs st), closed := closed st @ [dev]\<rparr>"

text \<open>A shared pointer to \<open>dev\<close> goes away; the last one runs the deleter.\<close>

definition release :: "nat \<Rightarrow> 'd bladerf_devs \<Rightarrow> 'd bladerf_devs" where
  "release dev st =
     (if use_count st dev = 0 then st
      else
        (let st1 = st\<lparr>use_count := (use_count st)(dev := use_count st dev - 1)\<rparr>
         in if use_count st1 dev = 0 then bladerf_common_close dev st1 else st1))"

section \<open>Auxiliary notions for the statements\<close>





text \<open>A small streaming object (block size 2, counter at 7) and a block of two
  samples with \<open>k\<close> samples reported dropped, for the concrete runs below.\<close>

definition demo :: "nat airspyhf_source_c" where
  "demo = (constructed 2 7 (\<lambda>_. [0, 0]))\<lparr>is_streaming := True\<rparr>"

definition block :: "64 word \<Rightarrow> nat transfer" where
  "block k = \<lparr>t_samples = [11, 12], t_dropped_samples = k\<rparr>"

text \<open>The first cached handle whose device information matches the request.\<close>

definition found :: "'d libbladeRF \<Rightarrow> 'd \<Rightarrow> nat list \<Rightarrow> nat option" where
  "found lib d ds = List.find (\<lambda>h. matches lib d (snd (info lib h))) ds"

text \<open>No entry of the cache has expired: the state \<^verbatim>\<open>close\<close> leaves behind.\<close>

definition cache_live :: "'d bladerf_devs \<Rightarrow> bool" where
  "cache_live st \<longleftrightarrow> (\<forall>h \<in> set (devs st). use_count st h \<noteq> 0)"

text \<open>No two cached handles report the same device information: one handle per unit.\<close>

definition one_handle_per_unit :: "'d libbladeRF \<Rightarrow> 'd bladerf_devs \<Rightarrow> bool" where
  "one_handle_per_unit lib st \<longleftrightarrow> distinct (map (\<lambda>h. snd (info lib h)) (devs st))"

text \<open>
  A small driver for the concrete runs: device information is a serial string, the
  request \<open>''*''\<close> matches any unit, handle 1 is unit A and every other handle unit B.
  In \<open>st0\<close> unit A is open once.
\<close>

definition lib0 :: "string libbladeRF" where
  "lib0 = \<lparr>from_str = (\<lambda>n. (0, n)),
           info = (\<lambda>h. (0, if h = 1 then ''A'' else ''B'')),
           matches = (\<lambda>d other. d = ''*'' \<or> d = other)\<rparr>"

definition st0 :: "string bladerf_devs" where
  "st0 = \<lparr>devs = [1], use_count = (\<lambda>h. if h = 1 then 1 else 0), opened = [(''A'', 1)], closed = []\<rparr>"

section \<open>The streaming bridge: invariants\<close>

lemmas bridge_defs = work_entry_def work_wait_loop_def airspyhf_rx_callback_def
  airspyhf_rx_callback_body_def memcpy_def notify_stream_cond_def notify_callback_done_cond_def
  start_def stop_def


lemma step_dropped: "step e s = Inr s' \<Longrightarrow> dropped_samples s' = dropped_samples s"
  by (cases e) (auto simp: bridge_defs Let_def split: if_splits option.splits callback_pc.splits work_pc.splits)













lemma run_dropped: "run es s = Inr s' \<Longrightarrow> dropped_samples s' = dropped_samples s"
  by (induction es arbitrary: s) (auto split: sum.splits dest: step_dropped)








section \<open>The streaming bridge: claims\<close>


lemmas eval_defs = demo_def block_def constructed_def bridge_defs Let_def WORK_DONE_def AIRSPYHF_SUCCESS_def



text \<open>
  Claim C1 as stated fails: a delivery that reports 5 dropped samples leaves
  \<^verbatim>\<open>_dropped_samples\<close> at its old value 7.
\<close>

theorem dropped_counter_counterexample:
  "dropped_samples demo = 7 \<and> t_dropped_samples (block 5) = 5 \<and>
   dropped_samples (airspyhf_rx_callback (block 5) (demo\<lparr>stream_buff := Some 5\<rparr>)) = 7"
  by (simp add: eval_defs)

text \<open>
  Claim C1, amended. No operation of the bridge writes \<^verbatim>\<open>_dropped_samples\<close>: the
  field keeps its value along every run and across every callback. A delivery whose
  transfer reports \<open>K > 0\<close> dropped samples prints one warning that carries \<open>K\<close> and
  then proceeds exactly as a delivery that reports none, so later deliveries are not
  affected.
\<close>

theorem drops_are_logged_not_counted:
  "(run es s = Inr s' \<longrightarrow> dropped_samples s' = dropped_samples s) \<and>
   dropped_samples (airspyhf_rx_callback t s) = dropped_samples s \<and>
   (t_dropped_samples t \<noteq> 0 \<longrightarrow>
      airspyhf_rx_callback_body t s =
        airspyhf_rx_callback_body (t\<lparr>t_dropped_samples := 0\<rparr>)
          (s\<lparr>out := out s @ [WARNING ''airspyhf_rx_callback''
                               [S ''dropped_samples: '', N (uint (t_dropped_samples t))]]\<rparr>))"
proof -
  have a: "run es s = Inr s' \<longrightarrow> dropped_samples s' = dropped_samples s"
    using run_dropped by blast
  have b: "dropped_samples (airspyhf_rx_callback t s) = dropped_samples s"
    by (simp add: bridge_defs Let_def split: option.splits work_pc.splits)
  have c: "t_dropped_samples t \<noteq> 0 \<longrightarrow>
      airspyhf_rx_callback_body t s =
        airspyhf_rx_callback_body (t\<lparr>t_dropped_samples := 0\<rparr>)
          (s\<lparr>out := out s @ [WARNING ''airspyhf_rx_callback''
                               [S ''dropped_samples: '', N (uint (t_dropped_samples t))]]\<rparr>)"
    by (simp add: bridge_defs Let_def split: option.splits work_pc.splits)
  from a b c show ?thesis by blast
qed

theorem drops_are_logged_not_counted_witness:
  "run [Callback_call (block 5)] (demo\<lparr>stream_buff := Some 5\<rparr>) =
     Inr (airspyhf_rx_callback (block 5) (demo\<lparr>stream_buff := Some 5\<rparr>)) \<and>
   dropped_samples (airspyhf_rx_callback (block 5) (demo\<lparr>stream_buff := Some 5\<rparr>)) = 7 \<and>
   t_dropped_samples (block 5) \<noteq> 0 \<and>
   copies (airspyhf_rx_callback_body (block 5) (demo\<lparr>stream_buff := Some 5\<rparr>)) = [(5, [11, 12])]"
proof -
  let ?s = "demo\<lparr>stream_buff := Some 5\<rparr>"
  have r: "run [Callback_call (block 5)] ?s = Inr (airspyhf_rx_callback (block 5) ?s)"
    by (simp add: demo_def constructed_def)
  have nz: "t_dropped_samples (block 5) \<noteq> 0" by (simp add: block_def)
  have d: "dropped_samples ?s = 7" by (simp add: demo_def constructed_def)
  have c: "copies (airspyhf_rx_callback_body (block 5\<lparr>t_dropped_samples := 0\<rparr>)
          (?s\<lparr>out := out ?s @ [WARNING ''airspyhf_rx_callback''
                               [S ''dropped_samples: '', N (uint (t_dropped_samples (block 5)))]]\<rparr>))
        = [(5, [11, 12])]"
    by (simp add: eval_defs)
  from drops_are_logged_not_counted[of "[Callback_call (block 5)]" ?s
      "airspyhf_rx_callback (block 5) ?s" "block 5"] r nz d c
  show ?thesis by simp
qed




lemma nonneg_int_less:
  fixes n :: "32 word"
  assumes "0 \<le> k" and "k < uint n"
  shows "(word_of_int k :: 32 word) < n"
proof -
  have "uint n < 2 ^ 32" using uint_bounded[of n] by simp
  then have "k < 2 ^ 32" using assms(2) by linarith
  then have "uint (word_of_int k :: 32 word) = k"
    using assms(1) by (simp add: uint_word_of_int take_bit_int_eq_self)
  then show ?thesis using assms(2) by (simp add: word_less_def)
qed

text \<open>
  Claim C4. While the device is streaming, a \<^verbatim>\<open>work\<close> call with a request size
  \<open>k\<close>, \<open>0 \<le> k < _airspyhf_output_size\<close>, returns 0 at once: nothing but the
  returned value changes, so the slot receives no buffer, nothing is copied, and the
  thread does not enter the wait.
\<close>

theorem undersized_request_returns_zero:
  assumes "is_streaming s" and "0 \<le> k" and "k < uint (airspyhf_output_size s)"
  shows "work_entry (word_of_int k) b s = s\<lparr>consumer := Work_return 0\<rparr> \<and>
         (outside_work (consumer s) \<longrightarrow>
            step (Work_call (word_of_int k) b) s = Inr (s\<lparr>consumer := Work_return 0\<rparr>))"
  using assms(1) nonneg_int_less[OF assms(2,3)] by (simp add: work_entry_def)

theorem undersized_request_returns_zero_witness:
  "is_streaming demo \<and> (0 :: int) \<le> 1 \<and> 1 < uint (airspyhf_output_size demo) \<and>
   work_entry 1 5 demo = demo\<lparr>consumer := Work_return 0\<rparr> \<and>
   run [Work_call 1 5] demo = Inr (demo\<lparr>consumer := Work_return 0\<rparr>)"
proof -
  have h1: "is_streaming demo" by (simp add: demo_def)
  have h2: "(0 :: int) \<le> 1" by simp
  have h3: "1 < uint (airspyhf_output_size demo)"
    by (simp add: demo_def constructed_def)
  have o: "outside_work (consumer demo)" by (simp add: demo_def constructed_def)
  from undersized_request_returns_zero[OF h1 h2 h3, of 5] h1 h2 h3 o show ?thesis by simp
qed

text \<open>A negative \<^verbatim>\<open>noutput_items\<close> is not a request size; converted to unsigned
  it is not below the block size, and the buffer is offered.\<close>

lemma negative_request_is_not_undersized:
  "work_entry (- 1) 5 demo = demo\<lparr>stream_buff := Some 5, offers := [5], consumer := Work_check\<rparr>"
  by (simp add: eval_defs)

text \<open>
  Claim C5 at a failing input. The consumer offers buffer 5 and parks; the device
  then leaves the streaming state. The halt does not release the consumer. When the
  wait ends (a wake-up without notification), or when the halt falls between the offer
  and the first test of the loop, \<^verbatim>\<open>work\<close> returns the block size 2, not
  \<^verbatim>\<open>WORK_DONE\<close>, although nothing was copied and the slot still holds the buffer.
\<close>

theorem halt_while_waiting_returns_block_size:
  "run [Work_call 2 5, Work_resume, Device_halt] demo =
     Inr (demo\<lparr>is_streaming := False, stream_buff := Some 5, offers := [5],
               consumer := Work_wait\<rparr>) \<and>
   run [Work_call 2 5, Work_resume, Device_halt, Wakeup_consumer, Work_resume] demo =
     Inr (demo\<lparr>is_streaming := False, stream_buff := Some 5, offers := [5],
               consumer := Work_return 2\<rparr>) \<and>
   run [Work_call 2 5, Device_halt, Work_resume] demo =
     Inr (demo\<lparr>is_streaming := False, stream_buff := Some 5, offers := [5],
               consumer := Work_return 2\<rparr>) \<and>
   run [Work_call 2 5, Device_halt, Work_resume, Work_call 2 5] demo =
     Inr (demo\<lparr>is_streaming := False, stream_buff := Some 5, offers := [5],
               consumer := Work_return WORK_DONE\<rparr>) \<and>
   copies demo = [] \<and> mem demo 5 = [0, 0] \<and> Work_return 2 \<noteq> Work_return WORK_DONE"
  by (simp add: eval_defs)

section \<open>AirspyHF gain and sample rate: claims\<close>

lemma trunc_of_int: "trunc (of_int k) = k"
  by (simp add: trunc_def)

lemma att_conv:
  assumes "0 \<le> std_round (- g / 6)" "std_round (- g / 6) \<le> 255"
  shows "airspyhf_att_db_to_value g = Inr (word_of_int (std_round (- g / 6)))"
  using assms by (simp add: airspyhf_att_db_to_value_def double_to_uint8_def trunc_of_int)

lemma att_back:
  assumes "0 \<le> k" "k \<le> 255"
  shows "airspyhf_att_value_to_db (word_of_int k) = - 6 * real_of_int k"
proof -
  have "unat (word_of_int k :: 8 word) = nat k"
    using assms by (simp add: unat_eq_nat_uint uint_word_of_int take_bit_int_eq_self)
  then show ?thesis using assms by (simp add: airspyhf_att_value_to_db_def)
qed

lemma std_round_of_nat: "std_round (real k) = int k"
  by (simp add: std_round_def)

text \<open>
  Claim C10 as stated fails: for the requested gain 6 dB the formula of the claim
  gives 6, but the rounded step \<open>-1\<close> does not fit \<^verbatim>\<open>uint8_t\<close>, the conversion
  is undefined, and no byte value maps back to a positive gain.
\<close>

theorem att_gain_counterexample:
  "set_gain AIRSPYHF_SUCCESS 6 ''ATT'' 0 demo = Inl Undefined_conversion \<and>
   - 6 * real_of_int (std_round (- 6 / 6)) = 6"
  by (simp add: set_gain_def airspyhf_att_db_to_value_def std_round_def double_to_uint8_def trunc_def)

text \<open>
  Claim C10, amended. For every requested gain \<open>g\<close> whose rounded step
  \<open>round(-g / 6)\<close> lies in 0..255 (every \<open>g\<close> of the range \<open>[-48, 0]\<close> does), and
  when the driver accepts the step or the step is the cached one,
  \<^verbatim>\<open>set_gain(g, "ATT")\<close> returns \<open>-6 * round(-g / 6)\<close> and a following
  \<^verbatim>\<open>get_gain("ATT")\<close> returns the same value; on the multiples of 6 that value is
  \<open>g\<close> itself.
\<close>

theorem att_gain_quantised:
  assumes "0 \<le> std_round (- g / 6)" and "std_round (- g / 6) \<le> 255"
    and "ret = AIRSPYHF_SUCCESS \<or> att s = word_of_int (std_round (- g / 6))"
  shows "(\<exists>s'. set_gain ret g ''ATT'' 0 s = Inr (- 6 * real_of_int (std_round (- g / 6)), s')
            \<and> get_gain ''ATT'' 0 s' = Inr (- 6 * real_of_int (std_round (- g / 6)), s'))
         \<and> (\<forall>k::nat. g = - 6 * real k \<longrightarrow> - 6 * real_of_int (std_round (- g / 6)) = g)"
proof -
  have a: "\<exists>s'. set_gain ret g ''ATT'' 0 s = Inr (- 6 * real_of_int (std_round (- g / 6)), s')
            \<and> get_gain ''ATT'' 0 s' = Inr (- 6 * real_of_int (std_round (- g / 6)), s')"
    using assms(3) att_back[OF assms(1,2)]
    by (auto simp add: set_gain_def get_gain_def att_conv[OF assms(1,2)] Let_def)
  have b: "\<forall>k::nat. g = - 6 * real k \<longrightarrow> - 6 * real_of_int (std_round (- g / 6)) = g"
    by (simp add: std_round_of_nat)
  from a b show ?thesis by blast
qed

theorem att_gain_quantised_witness:
  "0 \<le> std_round (- (- 13) / 6) \<and> std_round (- (- 13) / 6) \<le> 255 \<and>
   (\<exists>s'. set_gain AIRSPYHF_SUCCESS (- 13) ''ATT'' 0 demo = Inr (- 12, s') \<and>
         get_gain ''ATT'' 0 s' = Inr (- 12, s')) \<and>
   (\<exists>s'. set_gain AIRSPYHF_SUCCESS (- 48) ''ATT'' 0 demo = Inr (- 48, s') \<and>
         get_gain ''ATT'' 0 s' = Inr (- 48, s'))"
proof -
  have r: "std_round (- (- 13) / 6) = 2" by (simp add: std_round_def)
  have r48: "std_round (- (- 48) / 6) = 8" by (simp add: std_round_def)
  have h1: "0 \<le> std_round (- (- 13) / 6)" and h2: "std_round (- (- 13) / 6) \<le> 255"
    using r by simp_all
  have k1: "0 \<le> std_round (- (- 48) / 6)" and k2: "std_round (- (- 48) / 6) \<le> 255"
    using r48 by simp_all
  have r8: "std_round 8 = 8" by (simp add: std_round_def)
  have w13: "\<exists>s'. set_gain AIRSPYHF_SUCCESS (- 13) ''ATT'' 0 demo = Inr (- 12, s') \<and>
         get_gain ''ATT'' 0 s' = Inr (- 12, s')"
    using att_gain_quantised[OF h1 h2, of AIRSPYHF_SUCCESS demo] r by simp
  have w48: "\<exists>s'. set_gain AIRSPYHF_SUCCESS (- 48) ''ATT'' 0 demo = Inr (- 48, s') \<and>
         get_gain ''ATT'' 0 s' = Inr (- 48, s')"
    using att_gain_quantised[OF k1 k2, of AIRSPYHF_SUCCESS demo] by (simp add: r8)
  from w13 w48 h1 h2 show ?thesis by blast
qed

text \<open>
  Claim C8. AirspyHF: for every name other than ATT and LNA, \<^verbatim>\<open>set_gain\<close>
  prints a warning, issues no driver call, changes no field, and returns 0, the value
  \<^verbatim>\<open>get_gain\<close> reports for that name. bladeRF, compatibility build: for every name
  other than LNA, VGA1 and VGA2, \<^verbatim>\<open>set_gain\<close> prints the warning, calls no driver
  function, and returns the 0 of \<^verbatim>\<open>get_gain\<close>. bladeRF, current build: when
  the driver answers that the stage is unsupported, \<^verbatim>\<open>set_gain\<close> prints the
  warning, throws nothing, and returns what \<^verbatim>\<open>get_gain\<close> reports for the stage.
\<close>

theorem unknown_gain_stage_handled_locally:
  "(name \<noteq> ''ATT'' \<and> name \<noteq> ''LNA'' \<longrightarrow>
      set_gain ret gain name 0 s =
        Inr (0, s\<lparr>out := out s @ [WARNING ''set_gain'' [S ''unknown gain: '', S name]]\<rparr>) \<and>
      get_gain name 0 s =
        Inr (0, s\<lparr>out := out s @ [WARNING ''get_gain'' [S ''unknown gain: '', S name]]\<rparr>)) \<and>
   (name \<noteq> ''LNA'' \<and> name \<noteq> ''VGA1'' \<and> name \<noteq> ''VGA2'' \<longrightarrow>
      bladerf_common_set_gain True status_set reply gain name ch st =
        Inr (0, st\<lparr>b_out := b_out st @
                  [WARNING ''set_gain'' [S ''Gain stage '', S name, S '' not supported by device''],
                   WARNING ''get_gain'' [S ''Could not get gain for stage '', S name,
                                         N BLADERF_ERR_UNSUPPORTED]]\<rparr>)) \<and>
   (name \<noteq> SYSTEM_GAIN_NAME \<and> double_to_int gain = Inr g \<and> status_set = BLADERF_ERR_UNSUPPORTED \<longrightarrow>
      (\<exists>st'. bladerf_common_set_gain False status_set reply gain name ch st =
               Inr (real_of_int (sint (fst (snd reply))), st') \<and>
             bladerf_common_get_gain False reply name ch
               (st\<lparr>b_calls := b_calls st @ [Set_gain_stage ch name g],
                   b_out := b_out st @ [WARNING ''set_gain''
                      [S ''Gain stage '', S name, S '' not supported by device'']]\<rparr>)
               = (real_of_int (sint (fst (snd reply))), st') \<and>
             b_calls st' = b_calls st @ [Set_gain_stage ch name g, Get_gain_stage ch name]))"
  by (auto simp: set_gain_def get_gain_def bladerf_common_set_gain_def bladerf_common_get_gain_def
        Let_def BLADERF_ERR_UNSUPPORTED_def)

theorem unknown_gain_stage_handled_locally_witness:
  "''MIX'' \<noteq> ''ATT'' \<and> ''MIX'' \<noteq> ''LNA'' \<and> ''MIX'' \<noteq> ''VGA1'' \<and> ''MIX'' \<noteq> ''VGA2'' \<and>
   ''MIX'' \<noteq> SYSTEM_GAIN_NAME \<and> double_to_int 3 = Inr 3 \<and>
   set_gain 1 3 ''MIX'' 0 demo =
     Inr (0, demo\<lparr>out := [WARNING ''set_gain'' [S ''unknown gain: '', S ''MIX'']]\<rparr>) \<and>
   bladerf_common_set_gain True BLADERF_ERR_UNSUPPORTED (BLADERF_ERR_UNSUPPORTED, 0, BLADERF_LNA_GAIN_MID)
       3 ''MIX'' 0 \<lparr>b_calls = [], b_out = []\<rparr> =
     Inr (0, \<lparr>b_calls = [], b_out =
                  [WARNING ''set_gain'' [S ''Gain stage '', S ''MIX'', S '' not supported by device''],
                   WARNING ''get_gain'' [S ''Could not get gain for stage '', S ''MIX'',
                                         N BLADERF_ERR_UNSUPPORTED]]\<rparr>) \<and>
   (\<exists>st'. bladerf_common_set_gain False BLADERF_ERR_UNSUPPORTED (BLADERF_ERR_UNSUPPORTED, 0, BLADERF_LNA_GAIN_MID)
             3 ''MIX'' 0 \<lparr>b_calls = [], b_out = []\<rparr> = Inr (0, st') \<and>
          b_calls st' = [Set_gain_stage 0 ''MIX'' 3, Get_gain_stage 0 ''MIX''])"
proof -
  have h: "''MIX'' \<noteq> ''ATT''" "''MIX'' \<noteq> ''LNA''" "''MIX'' \<noteq> ''VGA1''" "''MIX'' \<noteq> ''VGA2''"
    "''MIX'' \<noteq> SYSTEM_GAIN_NAME"
    by (simp_all add: SYSTEM_GAIN_NAME_def)
  have c: "double_to_int 3 = Inr 3" by (simp add: double_to_int_def trunc_def)
  have e: "out demo = []" by (simp add: demo_def constructed_def)
  from unknown_gain_stage_handled_locally[where name = "''MIX''" and ret = 1 and gain = 3 and g = 3
        and s = demo and status_set = BLADERF_ERR_UNSUPPORTED
        and reply = "(BLADERF_ERR_UNSUPPORTED, 0, BLADERF_LNA_GAIN_MID)" and ch = 0
        and st = "\<lparr>b_calls = [], b_out = []\<rparr>"]
       h c e
  show ?thesis by auto
qed

text \<open>
  Claim C9 as stated fails: \<^verbatim>\<open>set_sample_rate(768000)\<close> on an object whose
  cached rate is already 768000 issues the driver call all the same.
\<close>

theorem setter_counterexample:
  "sample_rate demo = 768000 \<and>
   set_sample_rate AIRSPYHF_SUCCESS 768000 demo =
     Inr (768000, demo\<lparr>hw := [Set_samplerate 768000],
                        out := [INFO ''set_sample_rate'' [S ''samplerate: '', D 768000],
                                INFO ''set_sample_rate'' [S ''is_low_if: '']]\<rparr>)"
  by (simp add: set_sample_rate_def double_to_uint32_def trunc_def demo_def constructed_def
      AIRSPYHF_SUCCESS_def Let_def)

text \<open>
  Claim C9, amended. The AirspyHF gain setters are no-ops when the requested value,
  once quantised, equals the cached one: \<^verbatim>\<open>set_gain\<close> for ATT and for LNA and
  \<^verbatim>\<open>set_gain_mode\<close> then issue no driver call and leave the object as it is. The
  sample-rate and frequency setters (AirspyHF and bladeRF) have no such test: they
  issue their driver call on every invocation.
\<close>

theorem guarded_setters_are_no_ops:
  "(airspyhf_att_db_to_value gain = Inr (att s) \<longrightarrow>
      set_gain ret gain ''ATT'' 0 s = Inr (airspyhf_att_value_to_db (att s), s)) \<and>
   (airspyhf_lna_db_to_flag gain = lna s \<longrightarrow>
      set_gain ret gain ''LNA'' 0 s = Inr (airspyhf_lna_flag_to_db (lna s), s)) \<and>
   (automatic = agc s \<longrightarrow> set_gain_mode ret automatic 0 s = Inr (agc s, s)) \<and>
   (\<forall>r. double_to_uint32 rate = Inr r \<longrightarrow>
      (\<exists>v s'. set_sample_rate ret rate s = Inr (v, s') \<and> hw s' = hw s @ [Set_samplerate r])) \<and>
   hw (snd (set_center_freq ret freq s)) = hw s @ [Set_freq freq] \<and>
   (\<forall>v st'. bladerf_common_set_sample_rate reply rate ch st = Inr (v, st') \<longrightarrow>
      (\<exists>rr. b_calls st' = b_calls st @ [Set_rational_sample_rate ch rr]))"
proof -
  have a: "airspyhf_att_db_to_value gain = Inr (att s) \<longrightarrow>
      set_gain ret gain ''ATT'' 0 s = Inr (airspyhf_att_value_to_db (att s), s)"
    by (simp add: set_gain_def)
  have b: "airspyhf_lna_db_to_flag gain = lna s \<longrightarrow>
      set_gain ret gain ''LNA'' 0 s = Inr (airspyhf_lna_flag_to_db (lna s), s)"
    by (simp add: set_gain_def Let_def)
  have c: "automatic = agc s \<longrightarrow> set_gain_mode ret automatic 0 s = Inr (agc s, s)"
    by (simp add: set_gain_mode_def)
  have d: "\<forall>r. double_to_uint32 rate = Inr r \<longrightarrow>
      (\<exists>v s'. set_sample_rate ret rate s = Inr (v, s') \<and> hw s' = hw s @ [Set_samplerate r])"
    by (simp add: set_sample_rate_def Let_def)
  have e: "hw (snd (set_center_freq ret freq s)) = hw s @ [Set_freq freq]"
    by (simp add: set_center_freq_def Let_def)
  have f: "\<forall>v st'. bladerf_common_set_sample_rate reply rate ch st = Inr (v, st') \<longrightarrow>
      (\<exists>rr. b_calls st' = b_calls st @ [Set_rational_sample_rate ch rr])"
    by (auto simp: bladerf_common_set_sample_rate_def Let_def split: sum.splits if_splits)
  from a b c d e f show ?thesis by blast
qed

theorem guarded_setters_are_no_ops_witness:
  "airspyhf_att_db_to_value (- 1) = Inr (att demo) \<and>
   set_gain 1 (- 1) ''ATT'' 0 demo = Inr (0, demo) \<and>
   airspyhf_lna_db_to_flag 5 = lna demo \<and>
   set_gain 1 5 ''LNA'' 0 demo = Inr (6, demo) \<and>
   set_gain_mode 1 True 0 demo = Inr (True, demo) \<and>
   double_to_uint32 768000 = Inr 768000 \<and>
   (\<exists>v s'. set_sample_rate 1 768000 demo = Inr (v, s') \<and> hw s' = [Set_samplerate 768000]) \<and>
   (\<exists>v st' rr.
      bladerf_common_set_sample_rate (0, \<lparr>rr_integer = 1000000, rr_num = 0, rr_den = 1\<rparr>) 1000000 0
        \<lparr>b_calls = [], b_out = []\<rparr> = Inr (v, st') \<and>
      b_calls st' = [Set_rational_sample_rate 0 rr])"
proof -
  let ?act = "\<lparr>rr_integer = 1000000, rr_num = 0, rr_den = 1\<rparr>"
  let ?st' = "\<lparr>b_calls = [Set_rational_sample_rate 0 \<lparr>rr_integer = 1000000, rr_num = 0, rr_den = 10000\<rparr>],
           b_out = []\<rparr>"
  have b: "bladerf_common_set_sample_rate (0, ?act) 1000000 0 \<lparr>b_calls = [], b_out = []\<rparr> =
     Inr (1000000, ?st')"
    by (simp add: bladerf_common_set_sample_rate_def double_to_uint32_def double_to_uint64_def
        trunc_def rate_to_double_def Let_def)
  have "\<exists>rr. b_calls ?st' = b_calls \<lparr>b_calls = [], b_out = []\<rparr> @ [Set_rational_sample_rate 0 rr]"
    using guarded_setters_are_no_ops[where reply = "(0, ?act)" and rate = 1000000 and ch = 0
        and st = "\<lparr>b_calls = [], b_out = []\<rparr>"] b by blast
  then have w: "\<exists>v st' rr.
      bladerf_common_set_sample_rate (0, ?act) 1000000 0 \<lparr>b_calls = [], b_out = []\<rparr> = Inr (v, st') \<and>
      b_calls st' = [Set_rational_sample_rate 0 rr]"
    using b by auto
  have h1: "airspyhf_att_db_to_value (- 1) = Inr (att demo)"
    by (simp add: airspyhf_att_db_to_value_def double_to_uint8_def std_round_def trunc_def
        demo_def constructed_def)
  have h2: "airspyhf_lna_db_to_flag 5 = lna demo"
    by (simp add: airspyhf_lna_db_to_flag_def demo_def constructed_def)
  have h3: "True = agc demo" by (simp add: demo_def constructed_def)
  have h4: "double_to_uint32 768000 = Inr 768000"
    by (simp add: double_to_uint32_def trunc_def)
  have v: "airspyhf_att_value_to_db (att demo) = 0" "airspyhf_lna_flag_to_db (lna demo) = 6"
    "agc demo = True" "hw demo = []"
    by (simp_all add: airspyhf_att_value_to_db_def airspyhf_lna_flag_to_db_def demo_def constructed_def)
  from guarded_setters_are_no_ops[where gain = "- 1" and s = demo and ret = 1 and automatic = True
        and rate = 768000]
      guarded_setters_are_no_ops[where gain = 5 and s = demo and ret = 1]
      h1 h2 h3 h4 v w
  show ?thesis by simp
qed

text \<open>
  Claim C7 as stated fails: \<^verbatim>\<open>set_sample_rate(768000.5)\<close> programs the device
  with 768000 and returns 768000.5, which \<^verbatim>\<open>get_sample_rate()\<close> then reports.
\<close>

theorem sample_rate_counterexample:
  "set_sample_rate AIRSPYHF_SUCCESS (1536001 / 2) demo =
     Inr (1536001 / 2,
          demo\<lparr>hw := [Set_samplerate 768000], sample_rate := 1536001 / 2,
                out := [INFO ''set_sample_rate'' [S ''samplerate: '', D (1536001 / 2)],
                        INFO ''set_sample_rate'' [S ''is_low_if: '']]\<rparr>) \<and>
   get_sample_rate
     (demo\<lparr>hw := [Set_samplerate 768000], sample_rate := 1536001 / 2,
            out := [INFO ''set_sample_rate'' [S ''samplerate: '', D (1536001 / 2)],
                    INFO ''set_sample_rate'' [S ''is_low_if: '']]\<rparr>) = 1536001 / 2"
  by (simp add: set_sample_rate_def get_sample_rate_def double_to_uint32_def trunc_def demo_def
      constructed_def AIRSPYHF_SUCCESS_def Let_def)

lemma uint32_back:
  assumes "double_to_uint32 rate = Inr r"
  shows "r = word_of_int (trunc rate) \<and> real (unat r) = real_of_int (trunc rate)"
proof -
  from assms have b: "0 \<le> trunc rate" "trunc rate < 2 ^ 32" and r: "r = word_of_int (trunc rate)"
    by (auto simp: double_to_uint32_def split: if_splits)
  have "unat (word_of_int (trunc rate) :: 32 word) = nat (trunc rate)"
    using b by (simp add: unat_eq_nat_uint uint_word_of_int take_bit_int_eq_self)
  then show ?thesis using r b by simp
qed

text \<open>
  Claim C7, amended. AirspyHF: \<^verbatim>\<open>set_sample_rate(r)\<close> passes \<open>r\<close> truncated to
  \<^verbatim>\<open>uint32_t\<close> to the driver and returns the cached rate, which a following
  \<^verbatim>\<open>get_sample_rate()\<close> returns as well; on success the cached rate is \<open>r\<close>
  itself, equal to the programmed rate exactly when \<open>r\<close> is a whole number, and on
  failure it is the rate cached before. bladeRF: \<^verbatim>\<open>set_sample_rate\<close> returns the
  rate the driver reports as programmed, and \<^verbatim>\<open>get_sample_rate\<close> returns the same
  value when the driver reports that rate again.
\<close>

theorem sample_rate_round_trip:
  "(\<forall>v s'. set_sample_rate ret rate s = Inr (v, s') \<longrightarrow>
      get_sample_rate s' = v \<and>
      hw s' = hw s @ [Set_samplerate (word_of_int (trunc rate))] \<and>
      (ret = AIRSPYHF_SUCCESS \<longrightarrow> v = rate \<and>
         (real (unat (word_of_int (trunc rate) :: 32 word)) = v \<longleftrightarrow> rate = real_of_int (trunc rate))) \<and>
      (ret \<noteq> AIRSPYHF_SUCCESS \<longrightarrow> v = sample_rate s)) \<and>
   (\<forall>v st'. bladerf_common_set_sample_rate (status, actual) rate ch st = Inr (v, st') \<longrightarrow>
      v = rate_to_double actual \<and>
      bladerf_common_get_sample_rate (0, actual) ch st' =
        Inr (v, st'\<lparr>b_calls := b_calls st' @ [Get_rational_sample_rate ch]\<rparr>))"
proof -
  have a: "\<forall>v s'. set_sample_rate ret rate s = Inr (v, s') \<longrightarrow>
      get_sample_rate s' = v \<and>
      hw s' = hw s @ [Set_samplerate (word_of_int (trunc rate))] \<and>
      (ret = AIRSPYHF_SUCCESS \<longrightarrow> v = rate \<and>
         (real (unat (word_of_int (trunc rate) :: 32 word)) = v \<longleftrightarrow> rate = real_of_int (trunc rate))) \<and>
      (ret \<noteq> AIRSPYHF_SUCCESS \<longrightarrow> v = sample_rate s)"
  proof (intro allI impI)
    fix v s' assume r: "set_sample_rate ret rate s = Inr (v, s')"
    then obtain w where w: "double_to_uint32 rate = Inr w"
      by (auto simp: set_sample_rate_def split: sum.splits)
    note u = uint32_back[OF w]
    from r w u show "get_sample_rate s' = v \<and>
      hw s' = hw s @ [Set_samplerate (word_of_int (trunc rate))] \<and>
      (ret = AIRSPYHF_SUCCESS \<longrightarrow> v = rate \<and>
         (real (unat (word_of_int (trunc rate) :: 32 word)) = v \<longleftrightarrow> rate = real_of_int (trunc rate))) \<and>
      (ret \<noteq> AIRSPYHF_SUCCESS \<longrightarrow> v = sample_rate s)"
      by (auto simp: set_sample_rate_def get_sample_rate_def Let_def split: if_splits)
  qed
  have b: "\<forall>v st'. bladerf_common_set_sample_rate (status, actual) rate ch st = Inr (v, st') \<longrightarrow>
      v = rate_to_double actual \<and>
      bladerf_common_get_sample_rate (0, actual) ch st' =
        Inr (v, st'\<lparr>b_calls := b_calls st' @ [Get_rational_sample_rate ch]\<rparr>)"
    by (auto simp: bladerf_common_set_sample_rate_def bladerf_common_get_sample_rate_def Let_def
        split: sum.splits if_splits)
  from a b show ?thesis by blast
qed

theorem sample_rate_round_trip_witness:
  "set_sample_rate AIRSPYHF_SUCCESS 768000 demo =
     Inr (768000, demo\<lparr>hw := [Set_samplerate 768000],
                        out := [INFO ''set_sample_rate'' [S ''samplerate: '', D 768000],
                                INFO ''set_sample_rate'' [S ''is_low_if: '']]\<rparr>) \<and>
   get_sample_rate (demo\<lparr>hw := [Set_samplerate 768000],
                        out := [INFO ''set_sample_rate'' [S ''samplerate: '', D 768000],
                                INFO ''set_sample_rate'' [S ''is_low_if: '']]\<rparr>) = 768000 \<and>
   bladerf_common_set_sample_rate (0, \<lparr>rr_integer = 1000000, rr_num = 0, rr_den = 1\<rparr>) 1000001 0
       \<lparr>b_calls = [], b_out = []\<rparr> =
     Inr (1000000,
          \<lparr>b_calls = [Set_rational_sample_rate 0 \<lparr>rr_integer = 1000001, rr_num = 0, rr_den = 10000\<rparr>],
           b_out = []\<rparr>) \<and>
   bladerf_common_get_sample_rate (0, \<lparr>rr_integer = 1000000, rr_num = 0, rr_den = 1\<rparr>) 0
       \<lparr>b_calls = [Set_rational_sample_rate 0 \<lparr>rr_integer = 1000001, rr_num = 0, rr_den = 10000\<rparr>],
        b_out = []\<rparr> =
     Inr (1000000,
          \<lparr>b_calls = [Set_rational_sample_rate 0 \<lparr>rr_integer = 1000001, rr_num = 0, rr_den = 10000\<rparr>,
                      Get_rational_sample_rate 0],
           b_out = []\<rparr>)"
proof -
  let ?s' = "demo\<lparr>hw := [Set_samplerate 768000],
                        out := [INFO ''set_sample_rate'' [S ''samplerate: '', D 768000],
                                INFO ''set_sample_rate'' [S ''is_low_if: '']]\<rparr>"
  let ?act = "\<lparr>rr_integer = 1000000, rr_num = 0, rr_den = 1\<rparr>"
  let ?st' = "\<lparr>b_calls = [Set_rational_sample_rate 0 \<lparr>rr_integer = 1000001, rr_num = 0, rr_den = 10000\<rparr>],
           b_out = []\<rparr>"
  have a: "set_sample_rate AIRSPYHF_SUCCESS 768000 demo = Inr (768000, ?s')"
    by (simp add: set_sample_rate_def double_to_uint32_def trunc_def demo_def constructed_def
      AIRSPYHF_SUCCESS_def Let_def)
  have b: "bladerf_common_set_sample_rate (0, ?act) 1000001 0 \<lparr>b_calls = [], b_out = []\<rparr> =
     Inr (1000000, ?st')"
    by (simp add: bladerf_common_set_sample_rate_def double_to_uint32_def double_to_uint64_def
        trunc_def rate_to_double_def Let_def)
  note t = sample_rate_round_trip[where ret = AIRSPYHF_SUCCESS and rate = 768000 and s = demo
      and status = 0 and actual = ?act and ch = 0 and st = "\<lparr>b_calls = [], b_out = []\<rparr>"]
  note u = sample_rate_round_trip[where status = 0 and actual = ?act and rate = 1000001 and ch = 0
      and st = "\<lparr>b_calls = [], b_out = []\<rparr>"]
  have c: "get_sample_rate ?s' = 768000" using conjunct1[OF t] a by blast
  have d: "bladerf_common_get_sample_rate (0, ?act) 0 ?st' =
     Inr (1000000, ?st'\<lparr>b_calls := b_calls ?st' @ [Get_rational_sample_rate 0]\<rparr>)"
    using conjunct2[OF u] b by blast
  from a b c d show ?thesis by simp
qed

section \<open>bladeRF device cache: claims\<close>

lemma lookup_hit:
  "get_cached_device lib uc d ds = Inr (Some h) \<Longrightarrow>
     h \<in> set ds \<and> uc h \<noteq> 0 \<and> 0 \<le> fst (info lib h) \<and> matches lib d (snd (info lib h))"
  by (induction ds) (auto split: if_splits)

lemma lookup_miss:
  "get_cached_device lib uc d ds = Inr None \<Longrightarrow>
     \<forall>h \<in> set ds. \<not> matches lib d (snd (info lib h))"
  by (induction ds) (auto split: if_splits)

lemma lookup_find:
  "\<forall>h \<in> set ds. uc h \<noteq> 0 \<and> 0 \<le> fst (info lib h) \<Longrightarrow>
     get_cached_device lib uc d ds = Inr (found lib d ds)"
  by (induction ds) (auto simp: found_def)

lemma release_live: "cache_live st \<Longrightarrow> cache_live (release h st)"
  by (auto simp: cache_live_def release_def bladerf_common_close_def Let_def)

lemma release_distinct: "one_handle_per_unit lib st \<Longrightarrow> one_handle_per_unit lib (release h st)"
  by (auto simp: one_handle_per_unit_def release_def bladerf_common_close_def Let_def distinct_map_filter)

lemma open_hit:
  assumes "from_str lib name = (status, d)" and "0 \<le> status"
    and "get_cached_device lib (use_count st) d (devs st) = Inr (Some h)"
  shows "bladerf_common_open lib reply name st =
           Inr (h, st\<lparr>use_count := (use_count st)(h := use_count st h + 1)\<rparr>)"
  using assms by (simp add: bladerf_common_open_def)

lemma open_miss:
  assumes "from_str lib name = (status, d)" and "0 \<le> status"
    and "get_cached_device lib (use_count st) d (devs st) = Inr None"
  shows "bladerf_common_open lib reply name st =
           (if fst reply < 0 then Inl (Runtime_error (fst reply) ''Failed to open device'')
            else Inr (snd reply,
                      st\<lparr>opened := opened st @ [(d, snd reply)], devs := devs st @ [snd reply],
                         use_count := (use_count st)(snd reply := 1)\<rparr>))"
  using assms by (simp add: bladerf_common_open_def Let_def)

lemma open_error:
  assumes "from_str lib name = (status, d)" and "0 \<le> status"
    and "get_cached_device lib (use_count st) d (devs st) = Inl e"
  shows "bladerf_common_open lib reply name st = Inl e"
  using assms by (simp add: bladerf_common_open_def)

lemma open_grows_only_on_miss:
  assumes "from_str lib name = (status, d)" and "0 \<le> status"
    and "bladerf_common_open lib reply name st = Inr (h, st')" and "devs st' \<noteq> devs st"
  shows "(\<forall>c \<in> set (devs st). \<not> matches lib d (snd (info lib c))) \<and>
         h = snd reply \<and> devs st' = devs st @ [h] \<and> opened st' = opened st @ [(d, h)]"
proof (cases "get_cached_device lib (use_count st) d (devs st)")
  case (Inl e)
  then show ?thesis using open_error[OF assms(1,2) Inl] assms(3) by simp
next
  case (Inr r)
  show ?thesis
  proof (cases r)
    case None
    then have m: "get_cached_device lib (use_count st) d (devs st) = Inr None" using Inr by simp
    from open_miss[OF assms(1,2) m, of reply] assms(3)
    have "h = snd reply \<and> devs st' = devs st @ [h] \<and> opened st' = opened st @ [(d, h)]"
      by (auto split: if_splits)
    then show ?thesis using lookup_miss[OF m] by simp
  next
    case (Some c)
    then have m: "get_cached_device lib (use_count st) d (devs st) = Inr (Some c)" using Inr by simp
    from open_hit[OF assms(1,2) m, of reply] assms(3) have "devs st' = devs st" by auto
    then show ?thesis using assms(4) by simp
  qed
qed

lemma open_keeps_invariants:
  assumes "from_str lib name = (status, d)" and "0 \<le> status"
    and "bladerf_common_open lib reply name st = Inr (h, st')"
    and "cache_live st" and "one_handle_per_unit lib st"
    and "matches lib d (snd (info lib (snd reply)))"
  shows "cache_live st' \<and> one_handle_per_unit lib st' \<and> h \<in> set (devs st')"
proof (cases "get_cached_device lib (use_count st) d (devs st)")
  case (Inl e)
  then show ?thesis using open_error[OF assms(1,2) Inl] assms(3) by simp
next
  case (Inr r)
  show ?thesis
  proof (cases r)
    case None
    then have m: "get_cached_device lib (use_count st) d (devs st) = Inr None" using Inr by simp
    from open_miss[OF assms(1,2) m, of reply] assms(3)
    have e: "h = snd reply" "devs st' = devs st @ [h]" "use_count st' = (use_count st)(h := 1)"
      by (auto split: if_splits)
    have fresh: "snd (info lib h) \<notin> (\<lambda>c. snd (info lib c)) ` set (devs st)"
      using lookup_miss[OF m] assms(6) e(1) by auto
    have "cache_live st'" using assms(4) e by (auto simp: cache_live_def)
    moreover have "one_handle_per_unit lib st'"
      using assms(5) e fresh by (simp add: one_handle_per_unit_def)
    ultimately show ?thesis using e by simp
  next
    case (Some c)
    then have m: "get_cached_device lib (use_count st) d (devs st) = Inr (Some c)" using Inr by simp
    from open_hit[OF assms(1,2) m, of reply] assms(3)
    have e: "h = c" "devs st' = devs st" "use_count st' = (use_count st)(c := use_count st c + 1)"
      by auto
    have "cache_live st'" using assms(4) e by (auto simp: cache_live_def)
    moreover have "one_handle_per_unit lib st'"
      using assms(5) e by (simp add: one_handle_per_unit_def)
    ultimately show ?thesis using e lookup_hit[OF m] by simp
  qed
qed

text \<open>
  Claim C6. For a device name the driver can parse: when the lookup finds a cached
  handle, that handle is in the cache, has not expired and matches the request, and
  \<^verbatim>\<open>open\<close> returns it with one more owner, leaving the cache and the list of
  physical connections untouched; in a cache without expired entries the lookup finds
  the first entry that matches, whenever there is one; \<^verbatim>\<open>open\<close> adds an entry to
  the cache only when no cached device matches, and then it is the handle just opened.
  Hence, as long as the driver opens a unit that matches the request, no two cached
  handles refer to the same unit and no cached handle has expired, before and after
  every \<^verbatim>\<open>open\<close> and every release of a handle.
\<close>

theorem one_handle_per_device:
  assumes "from_str lib name = (status, d)" and "0 \<le> status"
  shows "(\<forall>h. get_cached_device lib (use_count st) d (devs st) = Inr (Some h) \<longrightarrow>
            h \<in> set (devs st) \<and> use_count st h \<noteq> 0 \<and> matches lib d (snd (info lib h)) \<and>
            bladerf_common_open lib reply name st =
              Inr (h, st\<lparr>use_count := (use_count st)(h := use_count st h + 1)\<rparr>)) \<and>
         ((\<forall>h \<in> set (devs st). use_count st h \<noteq> 0 \<and> 0 \<le> fst (info lib h)) \<longrightarrow>
            get_cached_device lib (use_count st) d (devs st) = Inr (found lib d (devs st))) \<and>
         (\<forall>h st'. bladerf_common_open lib reply name st = Inr (h, st') \<and> devs st' \<noteq> devs st \<longrightarrow>
            (\<forall>c \<in> set (devs st). \<not> matches lib d (snd (info lib c))) \<and>
            h = snd reply \<and> devs st' = devs st @ [h] \<and> opened st' = opened st @ [(d, h)]) \<and>
         (\<forall>h st'. bladerf_common_open lib reply name st = Inr (h, st') \<and>
            cache_live st \<and> one_handle_per_unit lib st \<and> matches lib d (snd (info lib (snd reply))) \<longrightarrow>
            cache_live st' \<and> one_handle_per_unit lib st' \<and> h \<in> set (devs st') \<and>
            (\<forall>k. cache_live (release k st') \<and> one_handle_per_unit lib (release k st')))"
proof (intro conjI allI impI)
  fix h assume m: "get_cached_device lib (use_count st) d (devs st) = Inr (Some h)"
  show "h \<in> set (devs st)" "use_count st h \<noteq> 0" "matches lib d (snd (info lib h))"
    using lookup_hit[OF m] by simp_all
  show "bladerf_common_open lib reply name st =
          Inr (h, st\<lparr>use_count := (use_count st)(h := use_count st h + 1)\<rparr>)"
    using open_hit[OF assms m] .
next
  assume "\<forall>h \<in> set (devs st). use_count st h \<noteq> 0 \<and> 0 \<le> fst (info lib h)"
  then show "get_cached_device lib (use_count st) d (devs st) = Inr (found lib d (devs st))"
    by (rule lookup_find)
next
  fix h st'
  assume a: "bladerf_common_open lib reply name st = Inr (h, st') \<and> devs st' \<noteq> devs st"
  note g = open_grows_only_on_miss[OF assms conjunct1[OF a] conjunct2[OF a]]
  show "\<forall>c \<in> set (devs st). \<not> matches lib d (snd (info lib c))" using g by simp
  show "h = snd reply" using g by simp
  show "devs st' = devs st @ [h]" using g by simp
  show "opened st' = opened st @ [(d, h)]" using g by simp
next
  fix h st'
  assume a: "bladerf_common_open lib reply name st = Inr (h, st') \<and>
            cache_live st \<and> one_handle_per_unit lib st \<and> matches lib d (snd (info lib (snd reply)))"
  then have k: "cache_live st' \<and> one_handle_per_unit lib st' \<and> h \<in> set (devs st')"
    using open_keeps_invariants[OF assms, of reply st h st'] by blast
  show "cache_live st'" "one_handle_per_unit lib st'" "h \<in> set (devs st')" using k by simp_all
  fix k' show "cache_live (release k' st')" using k release_live by blast
  show "one_handle_per_unit lib (release k' st')" using k release_distinct by blast
qed


theorem one_handle_per_device_witness:
  "from_str lib0 ''*'' = (0, ''*'') \<and> (0 :: int) \<le> 0 \<and>
   get_cached_device lib0 (use_count st0) ''*'' (devs st0) = Inr (Some 1) \<and>
   bladerf_common_open lib0 (0, 2) ''*'' st0 =
     Inr (1, st0\<lparr>use_count := (use_count st0)(1 := use_count st0 1 + 1)\<rparr>) \<and>
   devs st0 = [1] \<and> use_count st0 1 \<noteq> 0 \<and> 0 \<le> fst (info lib0 1) \<and>
   found lib0 ''*'' (devs st0) = Some 1 \<and>
   from_str lib0 ''B'' = (0, ''B'') \<and>
   cache_live st0 \<and> one_handle_per_unit lib0 st0 \<and> matches lib0 ''B'' (snd (info lib0 2)) \<and>
   (\<exists>st'. bladerf_common_open lib0 (0, 2) ''B'' st0 = Inr (2, st') \<and> devs st' \<noteq> devs st0 \<and>
          devs st' = [1, 2] \<and> opened st' = [(''A'', 1), (''B'', 2)] \<and>
          cache_live st' \<and> one_handle_per_unit lib0 st' \<and> cache_live (release 1 st'))"
proof -
  have f1: "from_str lib0 ''*'' = (0, ''*'')" and f2: "from_str lib0 ''B'' = (0, ''B'')"
    by (simp_all add: lib0_def)
  have z: "(0 :: int) \<le> 0" by simp
  have l: "get_cached_device lib0 (use_count st0) ''*'' (devs st0) = Inr (Some 1)"
    by (simp add: lib0_def st0_def)
  have live: "\<forall>h \<in> set (devs st0). use_count st0 h \<noteq> 0 \<and> 0 \<le> fst (info lib0 h)"
    by (simp add: lib0_def st0_def)
  have cl: "cache_live st0" and ou: "one_handle_per_unit lib0 st0"
    by (simp_all add: cache_live_def one_handle_per_unit_def st0_def)
  have m: "matches lib0 ''B'' (snd (info lib0 2))" by (simp add: lib0_def)
  let ?st' = "st0\<lparr>opened := opened st0 @ [(''B'', 2)], devs := devs st0 @ [2],
                   use_count := (use_count st0)(2 := 1)\<rparr>"
  have o: "bladerf_common_open lib0 (0, 2) ''B'' st0 = Inr (2, ?st')"
    by (simp add: bladerf_common_open_def lib0_def st0_def Let_def)
  have ne: "devs ?st' \<noteq> devs st0" by simp
  note hit = one_handle_per_device[OF f1 z, of st0 "(0, 2)"]
  note miss = one_handle_per_device[OF f2 z, of st0 "(0, 2)"]
  have a: "bladerf_common_open lib0 (0, 2) ''*'' st0 =
     Inr (1, st0\<lparr>use_count := (use_count st0)(1 := use_count st0 1 + 1)\<rparr>)"
    using conjunct1[OF hit] l by blast
  have b: "found lib0 ''*'' (devs st0) = Some 1"
    using conjunct1[OF conjunct2[OF hit]] live l by simp
  have c: "devs ?st' = devs st0 @ [2] \<and> opened ?st' = opened st0 @ [(''B'', 2)]"
    using conjunct1[OF conjunct2[OF conjunct2[OF miss]]] o ne by blast
  have d: "cache_live ?st' \<and> one_handle_per_unit lib0 ?st' \<and> cache_live (release 1 ?st')"
    using conjunct2[OF conjunct2[OF conjunct2[OF miss]]] o cl ou m by simp
  have e: "devs st0 = [1]" "opened st0 = [(''A'', 1)]" by (simp_all add: st0_def)
  have g: "use_count st0 1 \<noteq> 0" "0 \<le> fst (info lib0 1)" by (simp_all add: st0_def lib0_def)
  from f1 z l a g b f2 cl ou m o ne c d e show ?thesis by auto
qed

end
